theory Spec2Isabelle
  imports Complex_Main
begin

section \<open>Python strings\<close>

text \<open>
  A Python \<open>str\<close> is a sequence of Unicode code points. It is modelled as a list of
  natural numbers, one per code point, so that the characters the spiders test for
  (whitespace, digits, the em dash U+2014) are single elements, as they are in Python.
  \<open>str\<close> turns an ASCII literal into such a list.
\<close>

type_synonym codepoint = nat
type_synonym pystr = "codepoint list"

definition str :: "string \<Rightarrow> pystr" where
  "str cs = map of_char cs"

text \<open>
  \<open>isspace\<close> is the whitespace test shared by \<open>str.strip()\<close>, \<open>str.split()\<close> and
  the pattern class \<open>\s\<close> of a \<open>str\<close> pattern: tab to carriage return, the four
  separators U+001C..U+001F, space, U+0085, U+00A0 and the Unicode space separators.
\<close>

definition isspace :: "codepoint \<Rightarrow> bool" where
  "isspace c \<longleftrightarrow>
     (9 \<le> c \<and> c \<le> 13) \<or> (28 \<le> c \<and> c \<le> 32) \<or> c = 133 \<or> c = 160 \<or> c = 5760
     \<or> (8192 \<le> c \<and> c \<le> 8202) \<or> c = 8232 \<or> c = 8233 \<or> c = 8239 \<or> c = 8287
     \<or> c = 12288"

text \<open>\<open>s.strip()\<close>: whitespace removed at both ends.\<close>

definition strip :: "pystr \<Rightarrow> pystr" where
  "strip s = rev (dropWhile isspace (rev (dropWhile isspace s)))"

text \<open>\<open>sep.join(parts)\<close>.\<close>

fun join :: "pystr \<Rightarrow> pystr list \<Rightarrow> pystr" where
  "join sep [] = []"
| "join sep [x] = x"
| "join sep (x # y # ys) = x @ sep @ join sep (y # ys)"

text \<open>
  \<open>s.split()\<close> without an argument: the maximal runs of non-whitespace, in order;
  no empty word is ever produced.
\<close>

function split_ws :: "pystr \<Rightarrow> pystr list" where
  "split_ws s =
     (case dropWhile isspace s of
        [] \<Rightarrow> []
      | c # r \<Rightarrow> (c # takeWhile (\<lambda>x. \<not> isspace x) r)
                 # split_ws (dropWhile (\<lambda>x. \<not> isspace x) r))"
  by pat_completeness auto
termination
proof (relation "measure length")
  show "wf (measure length)" by simp
next
  fix s :: pystr and c r
  assume h: "dropWhile isspace s = c # r"
  have "length (dropWhile (\<lambda>x. \<not> isspace x) r) \<le> length r"
    by (rule length_dropWhile_le)
  also have "length r < length (dropWhile isspace s)"
    by (simp add: h)
  also have "length (dropWhile isspace s) \<le> length s"
    by (rule length_dropWhile_le)
  finally show "(dropWhile (\<lambda>x. \<not> isspace x) r, s) \<in> measure length"
    by simp
qed

declare split_ws.simps [simp del]

text \<open>A Python value used as a condition: \<open>None\<close> and the empty string are false.\<close>

fun truthy :: "pystr option \<Rightarrow> bool" where
  "truthy None = False"
| "truthy (Some s) = (s \<noteq> [])"

section \<open>The record the spiders emit\<close>

text \<open>
  \<open>GovChatbotFAQItem\<close> (items.py). A field holding Python's \<open>None\<close> is \<open>None\<close> here;
  a field a spider never assigns is \<open>None\<close> as well. The two date fields only ever
  receive \<open>None\<close>.
\<close>

record item =
  question :: "pystr option"
  answer :: "pystr option"
  category :: pystr
  tags :: "pystr list"
  date_posted :: "pystr option"
  date_updated :: "pystr option"
  image :: "pystr option"

section \<open>The text normalizer\<close>

text \<open>
  The expression both HTML spiders use on the text nodes of an answer container
  (ecitizen_go_ke/faq.py line 25, kra_go_ke/taxation.py line 41):
  \<^verbatim>\<open>" ".join(part.strip() for part in answer_parts if part.strip())\<close>
\<close>

definition normalize :: "pystr list \<Rightarrow> pystr" where
  "normalize parts = join (str '' '') [strip part. part \<leftarrow> parts, strip part \<noteq> []]"

text \<open>Two adjacent whitespace characters somewhere in a string.\<close>

fun has_double_ws :: "pystr \<Rightarrow> bool" where
  "has_double_ws (a # b # r) = ((isspace a \<and> isspace b) \<or> has_double_ws (b # r))"
| "has_double_ws _ = False"

text \<open>Whitespace at the first or at the last position of a string.\<close>

definition has_edge_ws :: "pystr \<Rightarrow> bool" where
  "has_edge_ws s = (case s of [] \<Rightarrow> False | c # r \<Rightarrow> isspace c \<or> isspace (last (c # r)))"

section \<open>The structural list-item spider (ecitizen)\<close>

text \<open>
  One \<open>li[id^="faq_"]\<close> container as the selectors of \<open>ECitizenFAQSpider.parse\<close> see
  it: the result of \<open>.get()\<close> on the question span (\<open>None\<close> when nothing is selected)
  and the result of \<open>.getall()\<close> on the answer container.
\<close>

record faq_node =
  question_text :: "pystr option"
  answer_parts :: "pystr list"

definition ecitizen_item :: "faq_node \<Rightarrow> item" where
  "ecitizen_item faq =
     (let question = question_text faq;
          answer = normalize (answer_parts faq)
      in \<lparr> question = (if truthy question then map_option strip question else None),
           answer = (if answer \<noteq> [] then Some (strip answer) else None),
           category = str ''eCitizen General'',
           tags = [str ''eCitizen''],
           date_posted = None,
           date_updated = None,
           image = None \<rparr>)"

text \<open>\<open>parse\<close>: one item per container, in document order.\<close>

definition ecitizen_parse :: "faq_node list \<Rightarrow> item list" where
  "ecitizen_parse faqs = map ecitizen_item faqs"

section \<open>The accessibility-label spider (health)\<close>

text \<open>
  One \<open>li[id^="faq_"]\<close> container as \<open>HealthFAQSpider.parse_sha\<close> sees it: the
  \<open>aria-label\<close> attribute of the button span and the span's first text node, each
  the result of a \<open>.get()\<close>.
\<close>

record health_node =
  aria_label :: "pystr option"
  span_text :: "pystr option"

text \<open>
  The pattern of \<open>parse_sha\<close>, searched with \<open>re.DOTALL\<close>:
  \<^verbatim>\<open>Question:\s*(.*?)\s*,\s*Answer:\s*(.*)\<close>
  The matcher follows the backtracking order of Python's \<open>re\<close>. \<open>strip_prefix\<close>
  matches a literal.
\<close>

fun strip_prefix :: "pystr \<Rightarrow> pystr \<Rightarrow> pystr option" where
  "strip_prefix [] s = Some s"
| "strip_prefix (p # ps) [] = None"
| "strip_prefix (p # ps) (c # cs) = (if p = c then strip_prefix ps cs else None)"

text \<open>
  \<open>match_tail\<close> is the part after the first group, \<^verbatim>\<open>\s*,\s*Answer:\s*(.*)\<close>, and
  returns the second group. Each greedy \<open>\s*\<close> takes the whole run of whitespace:
  the comma and the letter \<open>A\<close> that must follow are no whitespace, so giving
  whitespace back never finds another match; the final \<open>(.*)\<close> matches any rest,
  newlines included, so the \<open>\s*\<close> before it is never asked to give anything back.
\<close>

definition match_tail :: "pystr \<Rightarrow> pystr option" where
  "match_tail s =
     (case dropWhile isspace s of
        [] \<Rightarrow> None
      | c # r \<Rightarrow>
          if c = 44
          then map_option (dropWhile isspace)
                 (strip_prefix (str ''Answer:'') (dropWhile isspace r))
          else None)"

text \<open>
  The lazy group \<open>(.*?)\<close>: the tail is tried after zero characters, then after one
  more character at a time. \<open>g\<close> is the text the group holds so far.
\<close>

fun match_lazy :: "pystr \<Rightarrow> pystr \<Rightarrow> (pystr \<times> pystr) option" where
  "match_lazy g [] = (case match_tail [] of Some a \<Rightarrow> Some (g, a) | None \<Rightarrow> None)"
| "match_lazy g (c # cs) =
     (case match_tail (c # cs) of Some a \<Rightarrow> Some (g, a) | None \<Rightarrow> match_lazy (g @ [c]) cs)"

fun first_some :: "('a \<Rightarrow> 'b option) \<Rightarrow> 'a list \<Rightarrow> 'b option" where
  "first_some f [] = None"
| "first_some f (x # xs) = (case f x of Some y \<Rightarrow> Some y | None \<Rightarrow> first_some f xs)"

text \<open>
  A match attempt at one position: the literal \<open>Question:\<close>, then the greedy
  \<open>\s*\<close>, which first takes the whole run of whitespace and gives back one
  character at a time while the rest of the pattern fails.
\<close>

definition match_here :: "pystr \<Rightarrow> (pystr \<times> pystr) option" where
  "match_here s =
     (case strip_prefix (str ''Question:'') s of
        None \<Rightarrow> None
      | Some r \<Rightarrow>
          first_some (\<lambda>k. match_lazy [] (drop k r))
            (rev [0 ..< Suc (length (takeWhile isspace r))]))"

text \<open>\<open>re.search\<close>: the first position, from the left, at which an attempt succeeds.\<close>

fun re_search :: "pystr \<Rightarrow> (pystr \<times> pystr) option" where
  "re_search [] = match_here []"
| "re_search (c # cs) =
     (case match_here (c # cs) of Some m \<Rightarrow> Some m | None \<Rightarrow> re_search cs)"

text \<open>
  The body of the loop of \<open>parse_sha\<close> for one container: the item it yields, or
  \<open>None\<close> when the final condition \<open>question and answer\<close> fails.
\<close>

definition health_item :: "health_node \<Rightarrow> item option" where
  "health_item faq =
     (let (question, answer) =
        (if truthy (aria_label faq)
         then (case re_search (case aria_label faq of Some l \<Rightarrow> l | None \<Rightarrow> []) of
                 Some (g1, g2) \<Rightarrow> (Some (strip g1), strip g2)
               | None \<Rightarrow> (span_text faq, str ''Could not parse answer from aria-label.''))
         else (span_text faq, str ''Could not find aria-label.''))
      in if truthy question \<and> answer \<noteq> []
         then Some \<lparr> question = map_option strip question,
                     answer = Some (strip answer),
                     category = str ''Social Health Authority'',
                     tags = [str ''SHA'', str ''health'', str ''Kenya''],
                     date_posted = None,
                     date_updated = None,
                     image = None \<rparr>
         else None)"

definition parse_sha :: "health_node list \<Rightarrow> item list" where
  "parse_sha faqs = List.map_filter health_item faqs"

section \<open>The paginated-category spider (kra)\<close>

text \<open>
  A category page as the selectors of \<open>GovChatbotFAQSpider.parse_category\<close> see it:
  the text of the active navigation link (\<open>.get()\<close>), the grid items, each with its
  title (\<open>.get()\<close>) and the text nodes of its accordion content (\<open>.getall()\<close>), and
  the \<open>href\<close> of the pagination link titled \<open>Next\<close> (\<open>.get()\<close>).
\<close>

record response =
  active_category :: "pystr option"
  grid_items :: "faq_node list"
  next_page :: "pystr option"

definition kra_item :: "pystr option \<Rightarrow> faq_node \<Rightarrow> item" where
  "kra_item category_name faq =
     (let question = question_text faq;
          answer = normalize (answer_parts faq)
      in \<lparr> question = (if truthy question then map_option strip question else None),
           answer = Some answer,
           category = (case category_name of
                         Some n \<Rightarrow> if n \<noteq> [] then strip n else str ''General''
                       | None \<Rightarrow> str ''General''),
           tags = (case category_name of
                     Some n \<Rightarrow> if n \<noteq> [] then [strip n] else []
                   | None \<Rightarrow> []),
           date_posted = None,
           date_updated = None,
           image = None \<rparr>)"

text \<open>
  \<open>parse_category\<close> yields the items of the page in order and then, when
  \<open>next_page\<close> is true as a condition, one request for that link with itself as the
  handler. The result is the list of items and the link of that request, if any.
\<close>

definition parse_category :: "response \<Rightarrow> item list \<times> pystr option" where
  "parse_category response =
     (let category_name = active_category response
      in (map (kra_item category_name) (grid_items response),
          if truthy (next_page response) then next_page response else None))"

text \<open>
  Modelled from the spec: the traversal controller, which is the scraping framework's
  engine and not part of the repository. The spec has it fetch every scheduled target
  and hand the page to the same per-category handler, and keep no record of the pages
  it has seen. \<open>web page link\<close> is the page the fetch of \<open>link\<close>, scheduled from
  \<open>page\<close>, delivers. The traversal of one category returns the records in the order
  of emission; it has no result (\<open>None\<close>) when it never ends.
\<close>

type_synonym web = "response \<Rightarrow> pystr \<Rightarrow> response"

partial_function (option) crawl_category :: "web \<Rightarrow> response \<Rightarrow> item list option" where
  "crawl_category web response =
     (case parse_category response of
        (items, nxt) \<Rightarrow>
          (case nxt of
             None \<Rightarrow> Some items
           | Some link \<Rightarrow>
               Option.bind (crawl_category web (web response link))
                 (\<lambda>rest. Some (items @ rest))))"

text \<open>
  \<open>ends_after web n page\<close>: following the requests of \<open>parse_category\<close> from \<open>page\<close>,
  the \<open>n\<close>-th page reached is the first one that schedules no further request.
\<close>

fun ends_after :: "web \<Rightarrow> nat \<Rightarrow> response \<Rightarrow> bool" where
  "ends_after web 0 page = (snd (parse_category page) = None)"
| "ends_after web (Suc n) page =
     (case snd (parse_category page) of
        None \<Rightarrow> False
      | Some link \<Rightarrow> ends_after web n (web page link))"

text \<open>A page whose \<open>Next\<close> link leads back to the page itself.\<close>

definition loop_page :: response where
  "loop_page = \<lparr> active_category = Some (str ''PIN''),
                 grid_items = [],
                 next_page = Some (str ''/faqs?start=0'') \<rparr>"

definition loop_web :: web where
  "loop_web page link = loop_page"

section \<open>The slide spider\<close>

subsection \<open>The presentation as the Slides API returns it\<close>

text \<open>
  The nested dictionaries of the API response, each key that the spider reads with
  \<open>.get\<close> or tests with \<open>in\<close> as an optional field. Numbers are reals.
\<close>

record font_size =
  magnitude :: "real option"

record text_style =
  fontSize :: "font_size option"
  bold :: "bool option"

record text_run =
  content :: "pystr option"
  style :: "text_style option"

record text_element =
  textRun :: "text_run option"

record shape_text =
  textElements :: "text_element list option"

record shape =
  shape_text :: "shape_text option"

record transform =
  translateY :: "real option"

record image_ref =
  contentUrl :: "pystr option"

record page_element =
  el_shape :: "shape option"
  el_transform :: "transform option"
  el_image :: "image_ref option"

record slide =
  pageElements :: "page_element list option"

record presentation =
  slides :: "slide list option"

subsection \<open>Title detection and the collected text elements\<close>

text \<open>
  \<open>is_title_element\<close>: bold and a font size of at least 18 on the first text element;
  a missing \<open>shape\<close>, \<open>text\<close> or \<open>textElements\<close> key (KeyError) and an empty list
  (IndexError) give \<open>False\<close>.
\<close>

definition is_title_element :: "page_element \<Rightarrow> bool" where
  "is_title_element element =
     (case el_shape element of
        None \<Rightarrow> False
      | Some sh \<Rightarrow>
          (case shape_text sh of
             None \<Rightarrow> False
           | Some tx \<Rightarrow>
               (case textElements tx of
                  None \<Rightarrow> False
                | Some [] \<Rightarrow> False
                | Some (te # _) \<Rightarrow>
                    (let text_style = (case textRun te of
                                         None \<Rightarrow> None
                                       | Some run \<Rightarrow> style run);
                         font_size = (case text_style of
                                        None \<Rightarrow> 12
                                      | Some st \<Rightarrow>
                                          (case fontSize st of
                                             None \<Rightarrow> 12
                                           | Some fs \<Rightarrow>
                                               (case magnitude fs of
                                                  None \<Rightarrow> 12
                                                | Some m \<Rightarrow> m)));
                         is_bold = (case text_style of
                                      None \<Rightarrow> False
                                    | Some st \<Rightarrow>
                                        (case bold st of None \<Rightarrow> False | Some b \<Rightarrow> b))
                     in is_bold \<and> font_size \<ge> 18))))"

text \<open>The dictionary \<open>start\<close> appends to \<open>text_elements\<close>.\<close>

record text_entry =
  te_text :: pystr
  te_translateY :: real
  te_is_title :: bool

text \<open>
  The body of the loop over \<open>pageElements\<close>: the entry an element contributes, if
  it has a shape with text whose joined, stripped content is not empty.
\<close>

definition text_entry_of :: "page_element \<Rightarrow> text_entry option" where
  "text_entry_of element =
     (case el_shape element of
        None \<Rightarrow> None
      | Some sh \<Rightarrow>
          (case shape_text sh of
             None \<Rightarrow> None
           | Some tx \<Rightarrow>
               (let text = strip (concat
                      [case textRun te of
                         None \<Rightarrow> []
                       | Some run \<Rightarrow> (case content run of None \<Rightarrow> [] | Some c \<Rightarrow> c).
                       te \<leftarrow> (case textElements tx of None \<Rightarrow> [] | Some tes \<Rightarrow> tes)])
                in if text \<noteq> []
                   then Some \<lparr> te_text = text,
                               te_translateY =
                                 (case el_transform element of
                                    None \<Rightarrow> 0
                                  | Some tr \<Rightarrow>
                                      (case translateY tr of None \<Rightarrow> 0 | Some y \<Rightarrow> y)),
                               te_is_title = is_title_element element \<rparr>
                   else None)))"

text \<open>
  The collected elements after \<open>text_elements.sort(key=...)\<close>; Python's sort is
  stable, and so is \<open>sort_key\<close>.
\<close>

definition sorted_text_elements :: "slide \<Rightarrow> text_entry list" where
  "sorted_text_elements sl =
     sort_key te_translateY
       (List.map_filter text_entry_of
          (case pageElements sl of None \<Rightarrow> [] | Some es \<Rightarrow> es))"

text \<open>
  The title before cleaning: the first title-like element; failing that, the first
  element with more than one word, or else the first element. \<open>None\<close> when there is
  no text element at all.
\<close>

definition raw_title :: "text_entry list \<Rightarrow> pystr option" where
  "raw_title text_elements =
     (let title = (case filter te_is_title text_elements of
                     [] \<Rightarrow> None
                   | t # _ \<Rightarrow> Some (te_text t))
      in if \<not> truthy title \<and> text_elements \<noteq> []
         then Some (case filter (\<lambda>t. length (split_ws (te_text t)) > 1) text_elements of
                      [] \<Rightarrow> (case text_elements of
                               [] \<Rightarrow> str ''Untitled''
                             | t0 # _ \<Rightarrow> te_text t0)
                    | t # _ \<Rightarrow> te_text t)
         else title)"

subsection \<open>Cleaning the title\<close>

text \<open>
  \<^verbatim>\<open>re.sub(r'^[0-9]+[\.\)\s]*', '', title)\<close>: without \<open>re.MULTILINE\<close> the pattern
  matches at the start only; both repetitions are greedy and nothing follows them.
\<close>

definition isdigit :: "codepoint \<Rightarrow> bool" where
  "isdigit c \<longleftrightarrow> 48 \<le> c \<and> c \<le> 57"

definition sub_numbering :: "pystr \<Rightarrow> pystr" where
  "sub_numbering s =
     (case takeWhile isdigit s of
        [] \<Rightarrow> s
      | _ # _ \<Rightarrow> dropWhile (\<lambda>c. c = 46 \<or> c = 41 \<or> isspace c) (dropWhile isdigit s))"

text \<open>
  \<^verbatim>\<open>re.sub(r'[\:\-\X]+$', '', title)\<close>, where \<open>X\<close> stands for the em dash U+2014: the run of
  colons, hyphens and em dashes
  that ends the string. Without \<open>re.MULTILINE\<close>, \<open>$\<close> also matches just before a
  newline that is the last character; the run before that newline is then removed
  and the newline stays.
\<close>

definition is_trailing :: "codepoint \<Rightarrow> bool" where
  "is_trailing c \<longleftrightarrow> c = 58 \<or> c = 45 \<or> c = 8212"

definition sub_trailing :: "pystr \<Rightarrow> pystr" where
  "sub_trailing s =
     (if s \<noteq> [] \<and> last s = 10
      then rev (dropWhile is_trailing (rev (butlast s))) @ [10]
      else rev (dropWhile is_trailing (rev s)))"

text \<open>
  \<open>clean_title\<close>. The case tables of Unicode are not part of the repository:
  \<open>islower\<close> is \<open>str.islower\<close> on one character and \<open>upper\<close> is \<open>str.upper\<close> on one
  character (which may give more than one).
\<close>

definition clean_title ::
  "(codepoint \<Rightarrow> bool) \<Rightarrow> (codepoint \<Rightarrow> pystr) \<Rightarrow> pystr option \<Rightarrow> pystr" where
  "clean_title islower upper title =
     (case title of
        None \<Rightarrow> str ''Untitled''
      | Some t0 \<Rightarrow>
          if t0 = [] then str ''Untitled''
          else
            (let t1 = sub_numbering t0;
                 t2 = sub_trailing t1;
                 t3 = strip t2;
                 t4 = (case t3 of
                         [] \<Rightarrow> t3
                       | c # r \<Rightarrow> if islower c then upper c @ r else t3)
             in if t4 \<noteq> [] then t4 else str ''Untitled''))"

text \<open>The ASCII part of the case tables, for running the model on ASCII text.\<close>

definition ascii_islower :: "codepoint \<Rightarrow> bool" where
  "ascii_islower c \<longleftrightarrow> 97 \<le> c \<and> c \<le> 122"

definition ascii_upper :: "codepoint \<Rightarrow> pystr" where
  "ascii_upper c = (if 97 \<le> c \<and> c \<le> 122 then [c - 32] else [c])"

subsection \<open>Building the description\<close>

text \<open>\<^verbatim>\<open>re.sub(r'\s+', ' ', description)\<close>: every maximal run of whitespace becomes one space.\<close>

function collapse_ws :: "pystr \<Rightarrow> pystr" where
  "collapse_ws [] = []"
| "collapse_ws (c # cs) =
     (if isspace c then 32 # collapse_ws (dropWhile isspace cs) else c # collapse_ws cs)"
  by pat_completeness auto
termination
proof (relation "measure length")
  show "wf (measure length)" by simp
next
  fix c :: codepoint and cs :: pystr
  have "length (dropWhile isspace cs) \<le> length cs"
    by (rule length_dropWhile_le)
  then show "(dropWhile isspace cs, c # cs) \<in> measure length"
    by simp
next
  fix c :: codepoint and cs :: pystr
  show "(cs, c # cs) \<in> measure length"
    by simp
qed

definition build_description :: "text_entry list \<Rightarrow> pystr \<Rightarrow> pystr" where
  "build_description text_elements title =
     (let description_parts =
            [strip (te_text t). t \<leftarrow> text_elements,
               \<not> (strip (te_text t) = title \<or> length (split_ws (strip (te_text t))) < 2)]
      in if description_parts = [] then str ''No description available''
         else
           (let description = join (str ''. '') description_parts;
                description = (if description \<noteq> [] \<and> last description = 46
                               then description
                               else description @ str ''.'')
            in collapse_ws description))"

subsection \<open>One slide, and the whole run\<close>

definition slide_image_url :: "slide \<Rightarrow> pystr option" where
  "slide_image_url sl =
     (case List.map_filter
             (\<lambda>e. case el_image e of None \<Rightarrow> None | Some im \<Rightarrow> contentUrl im)
             (case pageElements sl of None \<Rightarrow> [] | Some es \<Rightarrow> es) of
        [] \<Rightarrow> None
      | u # _ \<Rightarrow> Some u)"

text \<open>
  The body of the loop over the slides: the items it yields for one slide. The
  description is built with the cleaned title.
\<close>

definition process_slide ::
  "(codepoint \<Rightarrow> bool) \<Rightarrow> (codepoint \<Rightarrow> pystr) \<Rightarrow> slide \<Rightarrow> item list" where
  "process_slide islower upper sl =
     (let text_elements = sorted_text_elements sl;
          title = clean_title islower upper (raw_title text_elements);
          description = build_description text_elements title;
          image_url = slide_image_url sl
      in if title \<noteq> [] \<or> description \<noteq> [] \<or> truthy image_url
         then [\<lparr> question = Some title,
                  answer = Some description,
                  category = str ''Google Slide Presentation'',
                  tags = [str ''google'', str ''slide'', str ''extracted''],
                  date_posted = None,
                  date_updated = None,
                  image = image_url \<rparr>]
         else [])"

text \<open>
  What \<open>start\<close> depends on: the setting, and the three calls into the Google client
  library, each of which returns or raises (\<open>Inl\<close>, with the exception's message).
  The calls a run makes and the lines it logs are recorded in a trace.
\<close>

record ('c, 's) env =
  GOOGLE_SERVICE_ACCOUNT_FILE :: "pystr option"
  from_service_account_file :: "pystr \<Rightarrow> pystr + 'c"
  build :: "'c \<Rightarrow> pystr + 's"
  get_execute :: "'s \<Rightarrow> pystr \<Rightarrow> pystr + presentation"

datatype event =
    Call_from_service_account_file pystr
  | Call_build
  | Call_get_execute pystr
  | Log_error pystr

fun is_call :: "event \<Rightarrow> bool" where
  "is_call (Log_error _) = False"
| "is_call _ = True"

record run =
  trace :: "event list"
  emitted :: "item list"
  raised :: "pystr option"

definition presentation_id :: pystr where
  "presentation_id = str ''1mY68zOIQBUHkht2wiKgzkIQpPuxh1Oihj2rn4AlMcDM''"

text \<open>
  \<open>start\<close>. The two \<open>try\<close> blocks catch the exception, log it and return; \<open>build\<close>
  stands outside them, so its exception ends the run uncaught.
\<close>

definition start ::
  "(codepoint \<Rightarrow> bool) \<Rightarrow> (codepoint \<Rightarrow> pystr) \<Rightarrow> ('c, 's) env \<Rightarrow> run" where
  "start islower upper env =
     (case (if truthy (GOOGLE_SERVICE_ACCOUNT_FILE env)
            then GOOGLE_SERVICE_ACCOUNT_FILE env else None) of
        None \<Rightarrow>
          \<lparr> trace = [Log_error (str ''GOOGLE_SERVICE_ACCOUNT_FILE setting missing'')],
            emitted = [], raised = None \<rparr>
      | Some file \<Rightarrow>
          (case from_service_account_file env file of
             Inl e \<Rightarrow>
               \<lparr> trace = [Call_from_service_account_file file,
                           Log_error (str ''Credential error: '' @ e)],
                 emitted = [], raised = None \<rparr>
           | Inr creds \<Rightarrow>
               (case build env creds of
                  Inl e \<Rightarrow>
                    \<lparr> trace = [Call_from_service_account_file file, Call_build],
                      emitted = [], raised = Some e \<rparr>
                | Inr slides_service \<Rightarrow>
                    (case get_execute env slides_service presentation_id of
                       Inl e \<Rightarrow>
                         \<lparr> trace = [Call_from_service_account_file file, Call_build,
                                     Call_get_execute presentation_id,
                                     Log_error (str ''API error: '' @ e)],
                           emitted = [], raised = None \<rparr>
                     | Inr pres \<Rightarrow>
                         \<lparr> trace = [Call_from_service_account_file file, Call_build,
                                     Call_get_execute presentation_id],
                           emitted = concat (map (process_slide islower upper)
                                       (case slides pres of None \<Rightarrow> [] | Some ss \<Rightarrow> ss)),
                           raised = None \<rparr>))))"

section \<open>Helper predicates of the proofs\<close>

text \<open>A non-empty string with no whitespace at either end.\<close>

definition trimmed :: "pystr \<Rightarrow> bool" where
  "trimmed w \<longleftrightarrow> w \<noteq> [] \<and> \<not> isspace (hd w) \<and> \<not> isspace (last w)"

section \<open>Example inputs\<close>

text \<open>A category of two pages: two grid items and a \<open>Next\<close> link, then one item and no link.\<close>

definition faq_a :: faq_node where
  "faq_a = \<lparr> question_text = Some (str '' What is a PIN? ''),
             answer_parts = [str ''A PIN is '', str '' '', str ''a number.''] \<rparr>"

definition faq_b :: faq_node where
  "faq_b = \<lparr> question_text = None, answer_parts = [] \<rparr>"

definition faq_c :: faq_node where
  "faq_c = \<lparr> question_text = Some (str ''Who needs one?''),
             answer_parts = [str ''Everyone.''] \<rparr>"

definition first_page :: response where
  "first_page = \<lparr> active_category = Some (str '' PIN ''),
                  grid_items = [faq_a, faq_b],
                  next_page = Some (str ''/faqs?start=10'') \<rparr>"

definition last_page :: response where
  "last_page = \<lparr> active_category = Some (str '' PIN ''),
                 grid_items = [faq_c],
                 next_page = None \<rparr>"

definition two_page_web :: web where
  "two_page_web page link = last_page"

text \<open>A last page on which no navigation link is marked active.\<close>

definition unmarked_last_page :: response where
  "unmarked_last_page = \<lparr> active_category = None,
                          grid_items = [faq_c],
                          next_page = None \<rparr>"

definition unmarked_web :: web where
  "unmarked_web page link = unmarked_last_page"

text \<open>
  A text box as the Slides API returns one: a paragraph marker without a text run,
  then one text run of unstyled text.
\<close>

definition text_box :: "string \<Rightarrow> real \<Rightarrow> page_element" where
  "text_box cs y =
     \<lparr> el_shape = Some \<lparr> shape_text = Some \<lparr> textElements =
          Some [\<lparr> textRun = None \<rparr>,
                \<lparr> textRun = Some \<lparr> content = Some (str cs), style = None \<rparr> \<rparr>] \<rparr> \<rparr>,
       el_transform = Some \<lparr> translateY = Some y \<rparr>,
       el_image = None \<rparr>"

definition benefits_slide :: slide where
  "benefits_slide = \<lparr> pageElements = Some [text_box ''1. benefits:'' 10] \<rparr>"

definition empty_slide :: slide where
  "empty_slide = \<lparr> pageElements = None \<rparr>"

text \<open>Three environments of \<open>start\<close>, one per failure.\<close>

definition no_setting_env :: "(unit, unit) env" where
  "no_setting_env =
     \<lparr> GOOGLE_SERVICE_ACCOUNT_FILE = None,
       from_service_account_file = (\<lambda>file. Inr ()),
       build = (\<lambda>creds. Inr ()),
       get_execute = (\<lambda>service pid. Inr \<lparr> slides = Some [benefits_slide] \<rparr>) \<rparr>"

definition bad_credentials_env :: "(unit, unit) env" where
  "bad_credentials_env =
     no_setting_env \<lparr> GOOGLE_SERVICE_ACCOUNT_FILE := Some (str ''sa.json''),
                      from_service_account_file := (\<lambda>file. Inl (str ''No such file'')) \<rparr>"

definition api_down_env :: "(unit, unit) env" where
  "api_down_env =
     no_setting_env \<lparr> GOOGLE_SERVICE_ACCOUNT_FILE := Some (str ''sa.json''),
                      get_execute := (\<lambda>service pid. Inl (str ''HttpError 503'')) \<rparr>"

section \<open>Properties of the string helpers\<close>

lemma strip_Nil [simp]: "strip [] = []"
  by (simp add: strip_def)

lemma last_dropWhile_ne: "dropWhile P xs \<noteq> [] \<Longrightarrow> last (dropWhile P xs) = last xs"
  by (induction xs) (auto split: if_splits)

lemma dropWhile_hd_id: "xs \<noteq> [] \<Longrightarrow> \<not> P (hd xs) \<Longrightarrow> dropWhile P xs = xs"
  by (cases xs) simp_all

lemma strip_fixed: "s \<noteq> [] \<Longrightarrow> \<not> isspace (hd s) \<Longrightarrow> \<not> isspace (last s) \<Longrightarrow> strip s = s"
proof -
  assume ne: "s \<noteq> []" and h: "\<not> isspace (hd s)" and l: "\<not> isspace (last s)"
  have a: "dropWhile isspace s = s" using ne h by (rule dropWhile_hd_id)
  have "hd (rev s) = last s" using ne by (simp add: hd_rev)
  then have b: "dropWhile isspace (rev s) = rev s" using ne l by (simp add: dropWhile_hd_id)
  show ?thesis by (simp add: strip_def a b)
qed

lemma strip_edges: "strip s \<noteq> [] \<Longrightarrow> \<not> isspace (hd (strip s)) \<and> \<not> isspace (last (strip s))"
proof -
  assume ne: "strip s \<noteq> []"
  define t where "t = dropWhile isspace s"
  define u where "u = dropWhile isspace (rev t)"
  have su: "strip s = rev u" by (simp add: strip_def t_def u_def)
  with ne have une: "u \<noteq> []" by simp
  then have tne: "t \<noteq> []" by (auto simp: u_def)
  have "\<not> isspace (hd u)" using une unfolding u_def by (rule hd_dropWhile)
  moreover have "\<not> isspace (hd t)" using tne unfolding t_def by (rule hd_dropWhile)
  moreover have "last u = hd t" using une tne by (simp add: u_def last_dropWhile_ne last_rev)
  ultimately show ?thesis using une by (simp add: su hd_rev last_rev)
qed

lemma strip_idem: "strip (strip s) = strip s"
  by (cases "strip s = []") (auto simp: strip_fixed strip_edges)

lemma normalize_single: "normalize [x] = strip x"
  by (simp add: normalize_def)

section \<open>The text normalizer: idempotence\<close>

text \<open>
  Claim C9. The text normalizer is idempotent: for every string \<open>x\<close>, normalizing the
  one-fragment list that holds \<open>normalize [x]\<close> gives \<open>normalize [x]\<close> again.
\<close>

theorem normalize_idempotent: "normalize [normalize [x]] = normalize [x]"
  by (simp add: normalize_single strip_idem)


section \<open>The text normalizer: whitespace\<close>

lemma strip_empty_iff: "strip s = [] \<longleftrightarrow> list_all isspace s"
proof
  assume "strip s = []"
  then have a: "\<forall>c\<in>set (dropWhile isspace s). isspace c"
    by (simp add: strip_def dropWhile_eq_Nil_conv)
  have "dropWhile isspace s = []"
  proof (rule ccontr)
    assume ne: "dropWhile isspace s \<noteq> []"
    then have "\<not> isspace (hd (dropWhile isspace s))" by (rule hd_dropWhile)
    with a ne show False by (meson hd_in_set)
  qed
  then show "list_all isspace s" by (simp add: dropWhile_eq_Nil_conv list_all_iff)
next
  assume "list_all isspace s"
  then have d: "dropWhile isspace s = []" by (simp add: dropWhile_eq_Nil_conv list_all_iff)
  show "strip s = []" unfolding strip_def d by simp
qed

lemma trimmed_strip: "strip p \<noteq> [] \<Longrightarrow> trimmed (strip p)"
  by (simp add: trimmed_def strip_edges)

lemma join_trimmed:
  "list_all trimmed ws \<Longrightarrow> ws \<noteq> [] \<Longrightarrow> trimmed (join sep ws)"
proof (induction sep ws rule: join.induct)
  case (3 sep x y ys)
  then have r: "trimmed (join sep (y # ys))" and x: "trimmed x" by simp_all
  then show ?case by (simp add: trimmed_def)
qed simp_all

lemma has_double_ws_append:
  "a \<noteq> [] \<Longrightarrow> b \<noteq> [] \<Longrightarrow>
   has_double_ws (a @ b) \<longleftrightarrow>
     has_double_ws a \<or> (isspace (last a) \<and> isspace (hd b)) \<or> has_double_ws b"
proof (induction a)
  case Nil
  then show ?case by simp
next
  case (Cons x a')
  note ih = Cons.IH and bne = Cons.prems(2)
  show ?case
  proof (cases a')
    case Nil
    with bne show ?thesis by (cases b) simp_all
  next
    case (Cons y r)
    with ih bne show ?thesis by auto
  qed
qed

lemma has_double_ws_join:
  "list_all trimmed ws \<Longrightarrow> has_double_ws (join (str '' '') ws) \<longleftrightarrow> list_ex has_double_ws ws"
proof (induction "str '' ''" ws rule: join.induct)
  case (3 x y ys)
  let ?r = "join (str '' '') (y # ys)"
  from 3 have x: "trimmed x" and r: "trimmed ?r" by (simp_all add: join_trimmed)
  have sp: "str '' '' @ ?r = 32 # ?r" by (simp add: str_def)
  have "has_double_ws (32 # ?r) = has_double_ws ?r"
    using r by (cases ?r) (simp_all add: trimmed_def)
  then have "has_double_ws (x @ str '' '' @ ?r) \<longleftrightarrow> has_double_ws x \<or> has_double_ws ?r"
    using x r by (simp add: sp has_double_ws_append trimmed_def)
  with 3 show ?case by simp
qed simp_all

lemma normalize_parts_trimmed: "list_all trimmed [strip part. part \<leftarrow> parts, strip part \<noteq> []]"
  by (induction parts) (simp_all add: trimmed_strip)

text \<open>
  Claim C2, as amended. For every sequence of fragments \<open>F\<close>, \<open>normalize F\<close> has no
  whitespace at its first or last position, and it has no two adjacent whitespace
  characters whenever no stripped fragment of \<open>F\<close> has two. Whitespace inside a
  fragment is kept as it is: only the fragments' ends are stripped, and the fragments
  that remain are joined by one space.
\<close>

theorem normalize_whitespace:
  "\<not> has_edge_ws (normalize F) \<and>
   (list_all (\<lambda>f. \<not> has_double_ws (strip f)) F \<longrightarrow> \<not> has_double_ws (normalize F))"
proof
  let ?ws = "[strip part. part \<leftarrow> F, strip part \<noteq> []]"
  have t: "list_all trimmed ?ws" by (rule normalize_parts_trimmed)
  show "\<not> has_edge_ws (normalize F)"
  proof (cases "?ws = []")
    case True
    have "normalize F = []" unfolding normalize_def True by simp
    then show ?thesis by (simp add: has_edge_ws_def)
  next
    case False
    with t have "trimmed (normalize F)" unfolding normalize_def by (rule join_trimmed)
    then show ?thesis by (auto simp: trimmed_def has_edge_ws_def split: list.splits)
  qed
  show "list_all (\<lambda>f. \<not> has_double_ws (strip f)) F \<longrightarrow> \<not> has_double_ws (normalize F)"
  proof
    assume "list_all (\<lambda>f. \<not> has_double_ws (strip f)) F"
    then have "\<not> list_ex has_double_ws ?ws"
      by (induction F) simp_all
    with t show "\<not> has_double_ws (normalize F)"
      by (simp add: normalize_def has_double_ws_join)
  qed
qed

text \<open>
  Claim C2, as stated, fails: the single fragment \<open>a  b\<close>, with two spaces inside,
  comes back unchanged.
\<close>

theorem normalize_double_space:
  "normalize [str ''a  b''] = str ''a  b'' \<and> has_double_ws (normalize [str ''a  b''])"
  by (simp add: normalize_def strip_def str_def isspace_def)

text \<open>The amended claim at three fragments, one of them blank.\<close>

theorem normalize_whitespace_witness:
  "\<not> has_edge_ws (normalize [str '' a b'', str ''  '', str ''c '']) \<and>
   list_all (\<lambda>f. \<not> has_double_ws (strip f)) [str '' a b'', str ''  '', str ''c ''] \<and>
   \<not> has_double_ws (normalize [str '' a b'', str ''  '', str ''c '']) \<and>
   normalize [str '' a b'', str ''  '', str ''c ''] = str ''a b c''"
  using normalize_whitespace [of "[str '' a b'', str ''  '', str ''c '']"]
  by (simp add: normalize_def strip_def str_def isspace_def)

section \<open>The structural list-item spider: the question field\<close>

text \<open>
  Claim C3, as amended. For every FAQ container, when the question selector yields
  nothing the question field of the emitted record is \<open>None\<close>; the field is the empty
  string exactly when the selected text is not empty and consists of whitespace only.
\<close>

theorem ecitizen_question_field:
  "(question_text faq = None \<longrightarrow> question (ecitizen_item faq) = None) \<and>
   (question (ecitizen_item faq) = Some [] \<longleftrightarrow>
      (case question_text faq of None \<Rightarrow> False | Some q \<Rightarrow> q \<noteq> [] \<and> list_all isspace q))"
  by (cases "question_text faq") (auto simp: ecitizen_item_def Let_def strip_empty_iff)

text \<open>
  Claim C3, as stated, fails: a question span whose text is two spaces gives a record
  whose question is the empty string.
\<close>

theorem ecitizen_question_empty:
  "question (ecitizen_item \<lparr> question_text = Some (str ''  ''), answer_parts = [] \<rparr>) = Some []"
  by (simp add: ecitizen_item_def Let_def strip_def str_def isspace_def)

text \<open>The amended claim at a container with no question text.\<close>

theorem ecitizen_question_field_witness:
  "question_text \<lparr> question_text = None, answer_parts = [str ''x''] \<rparr> = None \<and>
   question (ecitizen_item \<lparr> question_text = None, answer_parts = [str ''x''] \<rparr>) = None"
  using ecitizen_question_field [of "\<lparr> question_text = None, answer_parts = [str ''x''] \<rparr>"]
  by simp


section \<open>The accessibility-label spider: the two documented cases\<close>

lemma re_search_register:
  "re_search (str ''Question: How do I register?, Answer: Visit the portal.'') =
     Some (str ''How do I register?'', str ''Visit the portal.'')"
  by (simp add: str_def match_here_def match_tail_def isspace_def)

lemma health_item_label:
  "health_item \<lparr> aria_label = Some (str ''Question: How do I register?, Answer: Visit the portal.''),
                 span_text = t \<rparr> =
     Some \<lparr> question = Some (str ''How do I register?''),
            answer = Some (str ''Visit the portal.''),
            category = str ''Social Health Authority'',
            tags = [str ''SHA'', str ''health'', str ''Kenya''],
            date_posted = None, date_updated = None, image = None \<rparr>"
  by (simp add: health_item_def re_search_register) (simp add: str_def strip_def isspace_def)

lemma health_item_no_label:
  "health_item \<lparr> aria_label = None, span_text = Some (str ''How do I register?'') \<rparr> =
     Some \<lparr> question = Some (str ''How do I register?''),
            answer = Some (str ''Could not find aria-label.''),
            category = str ''Social Health Authority'',
            tags = [str ''SHA'', str ''health'', str ''Kenya''],
            date_posted = None, date_updated = None, image = None \<rparr>"
  by (simp add: health_item_def) (simp add: str_def strip_def isspace_def)

text \<open>
  Claim C5. A container whose accessibility label is
  \<open>Question: How do I register?, Answer: Visit the portal.\<close> gives one record with
  question \<open>How do I register?\<close> and answer \<open>Visit the portal.\<close>, whatever its text
  node is; a container with no accessibility label and the text node
  \<open>How do I register?\<close> gives one record with that question and the answer
  \<open>Could not find aria-label.\<close>.
\<close>

theorem parse_sha_documented_cases:
  "map (\<lambda>it. (question it, answer it))
     (parse_sha [\<lparr> aria_label = Some (str ''Question: How do I register?, Answer: Visit the portal.''),
                   span_text = t \<rparr>]) =
     [(Some (str ''How do I register?''), Some (str ''Visit the portal.''))] \<and>
   map (\<lambda>it. (question it, answer it))
     (parse_sha [\<lparr> aria_label = None, span_text = Some (str ''How do I register?'') \<rparr>]) =
     [(Some (str ''How do I register?''), Some (str ''Could not find aria-label.''))]"
  by (simp add: parse_sha_def List.map_filter_simps health_item_label health_item_no_label)

section \<open>The paginated-category spider: traversal\<close>

lemma crawl_last:
  "snd (parse_category page) = None \<Longrightarrow>
   crawl_category web page = Some (fst (parse_category page))"
  by (subst crawl_category.simps) (cases "parse_category page", simp)

lemma crawl_step:
  "snd (parse_category page) = Some link \<Longrightarrow>
   crawl_category web page =
     Option.bind (crawl_category web (web page link))
       (\<lambda>rest. Some (fst (parse_category page) @ rest))"
  by (subst crawl_category.simps) (cases "parse_category page", simp)

lemma ends_after_crawl:
  "ends_after web n page \<Longrightarrow> \<exists>items. crawl_category web page = Some items"
proof (induction n arbitrary: page)
  case 0
  then show ?case by (simp add: crawl_last)
next
  case (Suc n)
  then obtain link where l: "snd (parse_category page) = Some link"
    and e: "ends_after web n (web page link)"
    by (auto split: option.splits)
  from Suc.IH [OF e] obtain rest where "crawl_category web (web page link) = Some rest" ..
  with l show ?case by (simp add: crawl_step)
qed

lemma crawl_ends_after:
  "crawl_category web page = Some items \<Longrightarrow> \<exists>n. ends_after web n page"
proof (induction web page items
    rule: crawl_category.raw_induct [rotated 1, consumes 1, case_names step])
  case (step crawl web page items)
  show ?case
  proof (cases "snd (parse_category page)")
    case None
    then have "ends_after web 0 page" by simp
    then show ?thesis ..
  next
    case (Some link)
    with step(2) obtain rest where "crawl web (web page link) = Some rest"
      by (cases "parse_category page") (auto simp: bind_eq_Some_conv)
    then obtain n where "ends_after web n (web page link)" using step(1) by blast
    with Some have "ends_after web (Suc n) page" by simp
    then show ?thesis ..
  qed
qed

lemma loop_page_next: "snd (parse_category loop_page) = Some (str ''/faqs?start=0'')"
  by (simp add: parse_category_def Let_def loop_page_def str_def)

lemma loop_web_self: "loop_web page link = loop_page"
  by (simp add: loop_web_def)

lemma loop_never_ends: "\<not> ends_after loop_web n loop_page"
  by (induction n) (simp_all add: loop_page_next loop_web_self)

text \<open>
  Claim C6, as amended. A category page with two grid items and a \<open>Next\<close> link,
  followed by a page with one grid item and no \<open>Next\<close> link, yields exactly three
  records: the two of the first page, then the one of the second. Each record carries
  the category and tags of the active link of the page it stands on: the two of the
  first page always agree, and the third agrees with them when the second page shows
  the same active category.
\<close>

theorem crawl_category_two_pages:
  assumes "grid_items p1 = [a, b]" and "next_page p1 = Some link" and "link \<noteq> []"
    and "web p1 link = p2" and "grid_items p2 = [c]" and "\<not> truthy (next_page p2)"
  shows "crawl_category web p1 =
           Some [kra_item (active_category p1) a, kra_item (active_category p1) b,
                 kra_item (active_category p2) c] \<and>
         category (kra_item (active_category p1) b) = category (kra_item (active_category p1) a) \<and>
         tags (kra_item (active_category p1) b) = tags (kra_item (active_category p1) a) \<and>
         (active_category p2 = active_category p1 \<longrightarrow>
            category (kra_item (active_category p2) c) =
              category (kra_item (active_category p1) a) \<and>
            tags (kra_item (active_category p2) c) = tags (kra_item (active_category p1) a))"
proof -
  let ?n = "active_category p1"
  have 1: "parse_category p1 = ([kra_item ?n a, kra_item ?n b], Some link)"
    using assms(1-3) by (simp add: parse_category_def Let_def)
  have 2: "parse_category p2 = ([kra_item (active_category p2) c], None)"
    using assms(5,6) by (simp add: parse_category_def Let_def)
  have "crawl_category web p2 = Some [kra_item (active_category p2) c]"
    using 2 by (simp add: crawl_last)
  then have "crawl_category web p1 =
      Some [kra_item ?n a, kra_item ?n b, kra_item (active_category p2) c]"
    using 1 assms(4) by (simp add: crawl_step)
  then show ?thesis by (simp add: kra_item_def Let_def)
qed

text \<open>
  Claim C6, as stated, fails: the category is read again on every page, so when the
  second page marks no link active its record is of category \<open>General\<close> with no tag,
  after two records of category \<open>PIN\<close>.
\<close>

theorem crawl_category_mixed_categories:
  "crawl_category unmarked_web first_page =
     Some [\<lparr> question = Some (str ''What is a PIN?''), answer = Some (str ''A PIN is a number.''),
              category = str ''PIN'', tags = [str ''PIN''],
              date_posted = None, date_updated = None, image = None \<rparr>,
           \<lparr> question = None, answer = Some [],
              category = str ''PIN'', tags = [str ''PIN''],
              date_posted = None, date_updated = None, image = None \<rparr>,
           \<lparr> question = Some (str ''Who needs one?''), answer = Some (str ''Everyone.''),
              category = str ''General'', tags = [],
              date_posted = None, date_updated = None, image = None \<rparr>]"
proof -
  have 1: "snd (parse_category first_page) = Some (str ''/faqs?start=10'')"
    by (simp add: parse_category_def Let_def first_page_def str_def)
  have 2: "snd (parse_category unmarked_last_page) = None"
    by (simp add: parse_category_def Let_def unmarked_last_page_def)
  have "crawl_category unmarked_web first_page =
      Some (fst (parse_category first_page) @ fst (parse_category unmarked_last_page))"
    by (simp add: crawl_step [OF 1] unmarked_web_def crawl_last [OF 2])
  then show ?thesis
    by (simp add: parse_category_def Let_def first_page_def unmarked_last_page_def
          kra_item_def faq_a_def faq_b_def faq_c_def normalize_def)
       (simp add: str_def strip_def isspace_def)
qed

text \<open>
  The amended claim on the example category, whose two pages show the same active
  category: three records, all of category \<open>PIN\<close>.
\<close>

theorem crawl_category_two_pages_witness:
  "active_category last_page = active_category first_page \<and>
   crawl_category two_page_web first_page =
     Some [\<lparr> question = Some (str ''What is a PIN?''), answer = Some (str ''A PIN is a number.''),
              category = str ''PIN'', tags = [str ''PIN''],
              date_posted = None, date_updated = None, image = None \<rparr>,
           \<lparr> question = None, answer = Some [],
              category = str ''PIN'', tags = [str ''PIN''],
              date_posted = None, date_updated = None, image = None \<rparr>,
           \<lparr> question = Some (str ''Who needs one?''), answer = Some (str ''Everyone.''),
              category = str ''PIN'', tags = [str ''PIN''],
              date_posted = None, date_updated = None, image = None \<rparr>]"
  using crawl_category_two_pages
          [of first_page faq_a faq_b "str ''/faqs?start=10''" two_page_web last_page faq_c]
  apply (simp add: first_page_def last_page_def two_page_web_def)
  apply (simp add: kra_item_def Let_def faq_a_def faq_b_def faq_c_def normalize_def)
  apply (simp add: str_def strip_def isspace_def)
  done

text \<open>
  Claim C7. The traversal of a category terminates exactly when following the
  \<open>Next\<close> links reaches, after finitely many pages, a page with no \<open>Next\<close> link; and
  on the page whose \<open>Next\<close> link leads back to itself it does not terminate.
\<close>

theorem crawl_category_termination:
  "(crawl_category web page \<noteq> None \<longleftrightarrow> (\<exists>n. ends_after web n page)) \<and>
   snd (parse_category loop_page) = Some (str ''/faqs?start=0'') \<and>
   loop_web loop_page (str ''/faqs?start=0'') = loop_page \<and>
   crawl_category loop_web loop_page = None"
proof (intro conjI)
  show "crawl_category web page \<noteq> None \<longleftrightarrow> (\<exists>n. ends_after web n page)"
    using ends_after_crawl crawl_ends_after by fastforce
  show "snd (parse_category loop_page) = Some (str ''/faqs?start=0'')"
    by (rule loop_page_next)
  show "loop_web loop_page (str ''/faqs?start=0'') = loop_page"
    by (simp add: loop_web_def)
  show "crawl_category loop_web loop_page = None"
  proof (cases "crawl_category loop_web loop_page")
    case (Some items)
    then obtain n where "ends_after loop_web n loop_page"
      using crawl_ends_after by blast
    then show ?thesis by (simp add: loop_never_ends)
  qed simp
qed

text \<open>Claim C7 on the example category, which ends after one \<open>Next\<close> link.\<close>

theorem crawl_category_termination_witness:
  "ends_after two_page_web (Suc 0) first_page \<and> crawl_category two_page_web first_page \<noteq> None"
proof -
  have e: "ends_after two_page_web (Suc 0) first_page"
    by (simp add: parse_category_def Let_def first_page_def last_page_def two_page_web_def str_def)
  with crawl_category_termination [of two_page_web first_page] show ?thesis
    by blast
qed

section \<open>The paginated-category spider: tags and category\<close>

text \<open>
  Claim C10. For every record of a category page, the tags are the empty list exactly
  when the active-link selector yields no text (\<open>None\<close> or the empty string), and the
  category is then \<open>General\<close>; otherwise the tags are the one-element list of the
  record's category, which is the stripped name.
\<close>

theorem parse_category_tags:
  "it \<in> set (fst (parse_category response)) \<Longrightarrow>
     (tags it = [] \<longleftrightarrow> \<not> truthy (active_category response)) \<and>
     (\<not> truthy (active_category response) \<longrightarrow> category it = str ''General'') \<and>
     (truthy (active_category response) \<longrightarrow>
        tags it = [category it] \<and>
        Some (category it) = map_option strip (active_category response))"
  by (cases "active_category response")
     (auto simp: parse_category_def Let_def kra_item_def split: if_splits)

text \<open>Claim C10 on the first record of the example category.\<close>

theorem parse_category_tags_witness:
  "kra_item (Some (str '' PIN '')) faq_a \<in> set (fst (parse_category first_page)) \<and>
   truthy (active_category first_page) \<and>
   tags (kra_item (Some (str '' PIN '')) faq_a) = [category (kra_item (Some (str '' PIN '')) faq_a)] \<and>
   category (kra_item (Some (str '' PIN '')) faq_a) = str ''PIN''"
proof -
  have m: "kra_item (Some (str '' PIN '')) faq_a \<in> set (fst (parse_category first_page))"
    by (simp add: parse_category_def Let_def first_page_def)
  have t: "truthy (active_category first_page)"
    by (simp add: first_page_def str_def)
  have c: "map_option strip (active_category first_page) = Some (str ''PIN'')"
    by (simp add: first_page_def str_def strip_def isspace_def)
  from parse_category_tags [OF m] t c m show ?thesis
    by simp
qed

section \<open>The slide spider: emission\<close>

lemma clean_title_nonempty: "clean_title islower upper title \<noteq> []"
  by (auto simp: clean_title_def Let_def str_def split: option.splits list.splits)

lemma collapse_ws_nonempty: "s \<noteq> [] \<Longrightarrow> collapse_ws s \<noteq> []"
  by (cases s) simp_all

lemma build_description_nonempty: "build_description text_elements title \<noteq> []"
  by (simp add: build_description_def Let_def collapse_ws_nonempty str_def)

lemma raw_title_Nil: "raw_title [] = None"
  by (simp add: raw_title_def)

lemma build_description_Nil: "build_description [] title = str ''No description available''"
  by (simp add: build_description_def)

text \<open>
  Claim C4. Every slide yields exactly one record, and its question and its answer
  are non-empty strings, so the condition before the emission never filters a slide
  out; a slide without any text element yields the record of the two sentinels
  \<open>Untitled\<close> and \<open>No description available\<close>.
\<close>

theorem process_slide_always_emits:
  "\<exists>it. process_slide islower upper sl = [it] \<and> truthy (question it) \<and> truthy (answer it) \<and>
        (sorted_text_elements sl = [] \<longrightarrow>
           question it = Some (str ''Untitled'') \<and>
           answer it = Some (str ''No description available''))"
  by (simp add: process_slide_def Let_def clean_title_nonempty build_description_nonempty
        raw_title_Nil build_description_Nil) (simp add: clean_title_def)

text \<open>Claim C4 on a slide with no page elements.\<close>

theorem process_slide_always_emits_witness:
  "sorted_text_elements empty_slide = [] \<and>
   (\<exists>it. process_slide ascii_islower ascii_upper empty_slide = [it] \<and>
         question it = Some (str ''Untitled'') \<and>
         answer it = Some (str ''No description available''))"
proof -
  have e: "sorted_text_elements empty_slide = []"
    by (simp add: sorted_text_elements_def empty_slide_def List.map_filter_simps)
  with process_slide_always_emits [of ascii_islower ascii_upper empty_slide] show ?thesis
    by blast
qed

section \<open>The slide spider: failures before the first slide\<close>

text \<open>
  Claim C8. If the credential-file setting is absent (or empty), or loading the
  credentials raises, or fetching the presentation raises, the run emits no record,
  ends after logging the error, and has made each call into the client library at
  most once.
\<close>

theorem start_failure:
  "(\<not> truthy (GOOGLE_SERVICE_ACCOUNT_FILE env) \<or>
    (GOOGLE_SERVICE_ACCOUNT_FILE env = Some file \<and>
       from_service_account_file env file = Inl e) \<or>
    (GOOGLE_SERVICE_ACCOUNT_FILE env = Some file \<and>
       from_service_account_file env file = Inr creds \<and>
       build env creds = Inr service \<and>
       get_execute env service presentation_id = Inl e))
   \<Longrightarrow> emitted (start islower upper env) = [] \<and>
       raised (start islower upper env) = None \<and>
       distinct (filter is_call (trace (start islower upper env))) \<and>
       (\<exists>msg. last (trace (start islower upper env)) = Log_error msg)"
  by (cases "GOOGLE_SERVICE_ACCOUNT_FILE env") (auto simp: start_def presentation_id_def str_def)

text \<open>Claim C8 on the three example environments, with the trace of each failing call.\<close>

theorem start_failure_witness:
  "emitted (start ascii_islower ascii_upper no_setting_env) = [] \<and>
   trace (start ascii_islower ascii_upper bad_credentials_env) =
     [Call_from_service_account_file (str ''sa.json''),
      Log_error (str ''Credential error: No such file'')] \<and>
   emitted (start ascii_islower ascii_upper bad_credentials_env) = [] \<and>
   trace (start ascii_islower ascii_upper api_down_env) =
     [Call_from_service_account_file (str ''sa.json''), Call_build,
      Call_get_execute presentation_id,
      Log_error (str ''API error: HttpError 503'')] \<and>
   emitted (start ascii_islower ascii_upper api_down_env) = []"
  using start_failure [of no_setting_env "[]" "[]" "()" "()" ascii_islower ascii_upper]
    start_failure [of bad_credentials_env "str ''sa.json''" "str ''No such file''" "()" "()"
      ascii_islower ascii_upper]
    start_failure [of api_down_env "str ''sa.json''" "str ''HttpError 503''" "()" "()"
      ascii_islower ascii_upper]
  by (simp add: no_setting_env_def bad_credentials_env_def api_down_env_def start_def str_def)

section \<open>The slide spider: the description and the title\<close>

lemma benefits_elements:
  "sorted_text_elements benefits_slide =
     [\<lparr> te_text = str ''1. benefits:'', te_translateY = 10, te_is_title = False \<rparr>]"
  by (simp add: sorted_text_elements_def benefits_slide_def text_box_def text_entry_of_def
        is_title_element_def List.map_filter_simps strip_def str_def isspace_def)

lemma benefits_words: "split_ws (str ''1. benefits:'') = [str ''1.'', str ''benefits:'']"
  by (simp add: split_ws.simps str_def isspace_def)

lemma benefits_raw_title:
  "raw_title (sorted_text_elements benefits_slide) = Some (str ''1. benefits:'')"
  by (simp add: benefits_elements raw_title_def benefits_words)

lemma benefits_clean_title:
  "clean_title ascii_islower ascii_upper (Some (str ''1. benefits:'')) = str ''Benefits''"
  by (simp add: clean_title_def Let_def sub_numbering_def sub_trailing_def isdigit_def
        is_trailing_def strip_def isspace_def ascii_islower_def ascii_upper_def str_def)

lemma benefits_strip: "strip (str ''1. benefits:'') = str ''1. benefits:''"
  by (simp add: strip_def isspace_def str_def)

lemma benefits_description:
  "build_description (sorted_text_elements benefits_slide) (str ''Benefits'') =
     str ''1. benefits:.''"
  by (simp add: build_description_def benefits_elements benefits_strip benefits_words Let_def)
     (simp add: str_def isspace_def)

text \<open>
  Claim C1 asks for the answer to leave out the element that holds the uncleaned
  question text. \<open>start\<close> hands the cleaned title to \<open>build_description\<close>: on the
  slide whose only text is \<open>1. benefits:\<close> the question is \<open>Benefits\<close>, the element
  differs from it and stays in the answer, where leaving out the uncleaned text
  would give \<open>No description available\<close>.
\<close>

theorem process_slide_repeats_title:
  "process_slide ascii_islower ascii_upper benefits_slide =
     [\<lparr> question = Some (str ''Benefits''), answer = Some (str ''1. benefits:.''),
        category = str ''Google Slide Presentation'',
        tags = [str ''google'', str ''slide'', str ''extracted''],
        date_posted = None, date_updated = None, image = None \<rparr>] \<and>
   raw_title (sorted_text_elements benefits_slide) = Some (str ''1. benefits:'') \<and>
   build_description (sorted_text_elements benefits_slide) (str ''1. benefits:'') =
     str ''No description available''"
proof (intro conjI)
  show "process_slide ascii_islower ascii_upper benefits_slide =
     [\<lparr> question = Some (str ''Benefits''), answer = Some (str ''1. benefits:.''),
        category = str ''Google Slide Presentation'',
        tags = [str ''google'', str ''slide'', str ''extracted''],
        date_posted = None, date_updated = None, image = None \<rparr>]"
    by (simp add: process_slide_def Let_def benefits_raw_title benefits_clean_title
          benefits_description)
       (simp add: slide_image_url_def benefits_slide_def text_box_def List.map_filter_simps
          str_def)
  show "raw_title (sorted_text_elements benefits_slide) = Some (str ''1. benefits:'')"
    by (rule benefits_raw_title)
  show "build_description (sorted_text_elements benefits_slide) (str ''1. benefits:'') =
     str ''No description available''"
    by (simp add: build_description_def benefits_elements benefits_strip benefits_words Let_def)
qed

text \<open>
  On that slide the cleaned title is not empty, which is what lets the record through;
  its answer is not the one that leaving out the uncleaned title gives.
\<close>

theorem process_slide_repeats_title_witness:
  "clean_title ascii_islower ascii_upper (raw_title (sorted_text_elements benefits_slide)) \<noteq> [] \<and>
   map answer (process_slide ascii_islower ascii_upper benefits_slide) =
     [Some (str ''1. benefits:.'')] \<and>
   str ''1. benefits:.'' \<noteq>
     build_description (sorted_text_elements benefits_slide) (str ''1. benefits:'')"
  using process_slide_repeats_title
  by (simp add: benefits_clean_title) (simp add: str_def)

end
